theory Spec2Isabelle
  imports Main
begin

section \<open>The PnP resolution plugin for esbuild\<close>

text \<open>
  A shallow embedding of \<^verbatim>\<open>packages/esbuild-plugin-pnp/sources/index.ts\<close>.
  A JavaScript string is a sequence of code units; it is modelled as a \<^typ>\<open>string\<close>,
  one \<^typ>\<open>char\<close> per code unit. Every string operation the plugin uses
  (\<^verbatim>\<open>length\<close>, \<^verbatim>\<open>===\<close>, \<^verbatim>\<open>startsWith\<close>, \<^verbatim>\<open>endsWith\<close>,
  \<^verbatim>\<open>indexOf\<close>, \<^verbatim>\<open>slice\<close>, template concatenation) works code unit by code unit.
\<close>

subsection \<open>String primitives\<close>

text \<open>\<^verbatim>\<open>s.startsWith(search)\<close>: the first \<^verbatim>\<open>search.length\<close> code units of \<^verbatim>\<open>s\<close>
  are \<^verbatim>\<open>search\<close>.\<close>

definition startsWith :: "string \<Rightarrow> string \<Rightarrow> bool" where
  "startsWith s search = (take (length search) s = search)"

text \<open>\<^verbatim>\<open>s.endsWith(search)\<close>: \<^verbatim>\<open>search\<close> fits into \<^verbatim>\<open>s\<close> and the last
  \<^verbatim>\<open>search.length\<close> code units of \<^verbatim>\<open>s\<close> are \<^verbatim>\<open>search\<close>.\<close>

definition endsWith :: "string \<Rightarrow> string \<Rightarrow> bool" where
  "endsWith s search =
     (length search \<le> length s \<and> drop (length s - length search) s = search)"

text \<open>\<^verbatim>\<open>s.indexOf(c)\<close> for a one-unit search string: the index of the first
  occurrence, or \<open>-1\<close>.\<close>

fun indexOf :: "string \<Rightarrow> char \<Rightarrow> int" where
  "indexOf [] c = - 1"
| "indexOf (x # xs) c =
     (if x = c then 0
      else (let i = indexOf xs c in if i = - 1 then - 1 else i + 1))"

text \<open>\<^verbatim>\<open>s.slice(start, end)\<close> with JavaScript's clamping of negative and
  out-of-range indices; \<^verbatim>\<open>s.slice(start)\<close> runs to the end of the string.\<close>

definition sliceIndex :: "string \<Rightarrow> int \<Rightarrow> nat" where
  "sliceIndex s i =
     (if i < 0 then nat (max (int (length s) + i) 0) else nat (min i (int (length s))))"

definition slice :: "string \<Rightarrow> int \<Rightarrow> int \<Rightarrow> string" where
  "slice s start end =
     take (sliceIndex s end - sliceIndex s start) (drop (sliceIndex s start) s)"

definition sliceFrom :: "string \<Rightarrow> int \<Rightarrow> string" where
  "sliceFrom s start = slice s start (int (length s))"

subsection \<open>External patterns\<close>

text \<open>\<^verbatim>\<open>type External = string | {prefix: string, suffix: string}\<close>\<close>

datatype External = Exact string | Wildcard string string

definition parseExternal :: "string \<Rightarrow> External" where
  "parseExternal external =
     (let wildcardIdx = indexOf external CHR ''*'' in
      if wildcardIdx \<noteq> - 1
      then Wildcard (slice external 0 wildcardIdx) (sliceFrom external (wildcardIdx + 1))
      else Exact external)"

definition parseExternals :: "string list \<Rightarrow> External list" where
  "parseExternals externals = map parseExternal externals"

text \<open>The loop of \<^verbatim>\<open>isExternal\<close> returns at the first pattern that matches.\<close>

fun isExternal :: "string \<Rightarrow> External list \<Rightarrow> bool" where
  "isExternal path [] = False"
| "isExternal path (Wildcard pre suf # externals) =
     (if length path \<ge> length pre + length suf \<and> startsWith path pre \<and> endsWith path suf
      then True
      else isExternal path externals)"
| "isExternal path (Exact external # externals) =
     (if path = external then True
      else if \<not> startsWith external ''/'' \<and> \<not> startsWith external ''./''
              \<and> \<not> startsWith external ''../'' \<and> external \<noteq> ''.'' \<and> external \<noteq> ''..''
              \<and> startsWith path (external @ ''/'')
      then True
      else isExternal path externals)"

subsection \<open>Condition sets\<close>

text \<open>
  A JavaScript \<^verbatim>\<open>Set\<close> of strings keeps its members in insertion order, each once:
  a list without duplicates. \<^verbatim>\<open>add\<close> appends a new member and leaves the set alone
  otherwise; \<^verbatim>\<open>new Set(iterable)\<close> adds the members one by one.
\<close>

definition setAdd :: "string list \<Rightarrow> string \<Rightarrow> string list" where
  "setAdd s x = (if x \<in> set s then s else s @ [x])"

definition newSet :: "string list \<Rightarrow> string list" where
  "newSet xs = foldl setAdd [] xs"

record ConditionSets =
  conditionsDefault :: "string list"
  conditionsImport :: "string list"
  conditionsRequire :: "string list"

text \<open>
  The three sets that \<^verbatim>\<open>setup\<close> builds from \<^verbatim>\<open>build.initialOptions.conditions\<close>
  (an array, here already \<open>[]\<close> when it is undefined) and the platform.
\<close>

definition buildConditionSets :: "string list \<Rightarrow> string \<Rightarrow> ConditionSets" where
  "buildConditionSets conditions platform =
     (let conditionsDefault0 = setAdd (newSet conditions) ''default'';
          conditionsDefault1 =
            (if platform = ''browser'' \<or> platform = ''node''
             then setAdd conditionsDefault0 platform
             else conditionsDefault0);
          conditionsImport1 = setAdd (newSet conditionsDefault1) ''import'';
          conditionsRequire1 = setAdd (newSet conditionsDefault1) ''require''
      in \<lparr>conditionsDefault = conditionsDefault1,
          conditionsImport = conditionsImport1,
          conditionsRequire = conditionsRequire1\<rparr>)"

text \<open>The choice the resolve hook makes for each request, by the request's kind.\<close>

definition selectConditions :: "ConditionSets \<Rightarrow> string \<Rightarrow> string list" where
  "selectConditions sets k =
     (if k = ''dynamic-import'' \<or> k = ''import-statement'' then conditionsImport sets
      else if k = ''require-call'' \<or> k = ''require-resolve'' then conditionsRequire sets
      else conditionsDefault sets)"

subsection \<open>The data of the resolve hook\<close>

text \<open>
  A thrown value is an \<^verbatim>\<open>Error\<close> object (the type of \<^verbatim>\<open>OnResolveParams.error\<close>);
  an object is truthy, so \<^verbatim>\<open>error ? ... : []\<close> asks whether one was caught.
  The fields of esbuild's argument and result objects that the plugin reads or writes
  are kept; an optional field that is not set is \<open>None\<close>. The request kind is the
  string that esbuild passes.
\<close>

record Error =
  message :: string

record PartialMessage =
  msg_text :: string

record OnResolveArgs =
  path :: string
  importer :: string
  resolveDir :: string
  kind :: string

text \<open>
  \<^verbatim>\<open>resolvedPath\<close> is a string or null. \<^verbatim>\<open>watchFiles\<close> is declared an array of
  strings, but its first member is what the provider returned for \<^verbatim>\<open>pnpapi\<close>, which
  may be null: the non-null assertion \<^verbatim>\<open>!\<close> is erased at run time. Its members are
  therefore modelled as string-or-null.
\<close>

record OnResolveParams =
  resolvedPath :: "string option"
  watchFiles :: "string option list"
  error :: "Error option"

record OnResolveResult =
  res_external :: "bool option"
  res_namespace :: "string option"
  res_path :: "string option"
  res_errors :: "PartialMessage list option"
  res_warnings :: "PartialMessage list option"
  res_watchFiles :: "string option list option"

definition emptyResult :: OnResolveResult where
  "emptyResult =
     \<lparr>res_external = None, res_namespace = None, res_path = None,
      res_errors = None, res_warnings = None, res_watchFiles = None\<rparr>"

definition defaultOnResolve :: "OnResolveArgs \<Rightarrow> OnResolveParams \<Rightarrow> OnResolveResult" where
  "defaultOnResolve args params =
     (let problems = (case error params of Some e \<Rightarrow> [\<lparr>msg_text = message e\<rparr>] | None \<Rightarrow> []);
          mergeWith =
            (if kind args = ''require-call'' \<or> kind args = ''require-resolve''
                \<or> kind args = ''dynamic-import''
             then emptyResult\<lparr>res_warnings := Some problems\<rparr>
             else emptyResult\<lparr>res_errors := Some problems\<rparr>)
      in case resolvedPath params of
           Some p \<Rightarrow>
             emptyResult\<lparr>res_namespace := Some ''pnp'', res_path := Some p,
                          res_watchFiles := Some (watchFiles params)\<rparr>
         | None \<Rightarrow>
             mergeWith\<lparr>res_external := Some True,
                        res_watchFiles := Some (watchFiles params)\<rparr>)"

subsection \<open>The resolution provider\<close>

text \<open>
  The PnP API is a parameter of the plugin. Its functions are taken at their declared
  types: \<^verbatim>\<open>resolveRequest\<close> returns a path or null, or throws (the hook catches it);
  \<^verbatim>\<open>findPackageLocator\<close> and \<^verbatim>\<open>getPackageInformation\<close> return a value or null;
  \<^verbatim>\<open>resolveVirtual\<close> is an optional method that returns a path or null.
\<close>

datatype LinkType = HARD | SOFT

record PackageLocator =
  name :: "string option"
  reference :: "string option"

record PackageInformation =
  linkType :: LinkType

record ResolveOptions =
  opts_conditions :: "string list"
  opts_considerBuiltins :: bool
  opts_extensions :: "string list"

record PnpApi =
  resolveRequest :: "string \<Rightarrow> string option \<Rightarrow> ResolveOptions option \<Rightarrow> Error + string option"
  findPackageLocator :: "string \<Rightarrow> PackageLocator option"
  getPackageInformation :: "PackageLocator \<Rightarrow> PackageInformation option"
  resolveVirtual :: "(string \<Rightarrow> string option) option"

text \<open>The calls made to the provider, in the order they are made.\<close>

datatype Call =
    FindPnpApi string
  | ResolveRequest string "string option" "ResolveOptions option"
  | FindPackageLocator string
  | GetPackageInformation PackageLocator
  | ResolveVirtual string

subsection \<open>Plugin setup\<close>

definition defaultExtensions :: "string list" where
  "defaultExtensions = [''.tsx'', ''.ts'', ''.jsx'', ''.mjs'', ''.cjs'', ''.js'', ''.css'', ''.json'']"

record PluginOptions =
  option_baseDir :: "string option"
  option_extensions :: "string list option"
  option_onResolve :: "(OnResolveArgs \<Rightarrow> OnResolveParams \<Rightarrow> OnResolveResult option) option"

record BuildOptions =
  initial_external :: "string list option"
  initial_platform :: "string option"
  initial_conditions :: "string list option"

text \<open>What the resolve hook closes over: the plugin's options after defaults and the
  values \<^verbatim>\<open>setup\<close> computes once.\<close>

record Closure =
  baseDir :: string
  extensions :: "string list"
  onResolve :: "OnResolveArgs \<Rightarrow> OnResolveParams \<Rightarrow> OnResolveResult option"
  findPnpApi :: "string \<Rightarrow> PnpApi option"
  externals :: "External list"
  isPlatformNode :: bool
  conditionSets :: ConditionSets

text \<open>
  \<^verbatim>\<open>pnpPlugin(options).setup(build)\<close>, up to the registration of the hook:
  \<open>cwd\<close> is \<^verbatim>\<open>process.cwd()\<close>, \<open>moduleFindPnpApi\<close> is \<^verbatim>\<open>require('module').findPnpApi\<close>.
  Without \<^verbatim>\<open>findPnpApi\<close> nothing is registered.
\<close>

definition pnpPlugin ::
  "string \<Rightarrow> (string \<Rightarrow> PnpApi option) option \<Rightarrow> PluginOptions \<Rightarrow> BuildOptions \<Rightarrow> Closure option"
where
  "pnpPlugin cwd moduleFindPnpApi options initialOptions =
     (case moduleFindPnpApi of
        None \<Rightarrow> None
      | Some locate \<Rightarrow>
          (let platform = (case initial_platform initialOptions of None \<Rightarrow> ''browser'' | Some p \<Rightarrow> p)
           in Some
             \<lparr>baseDir = (case option_baseDir options of None \<Rightarrow> cwd | Some d \<Rightarrow> d),
              extensions =
                (case option_extensions options of None \<Rightarrow> defaultExtensions | Some es \<Rightarrow> es),
              onResolve =
                (case option_onResolve options of
                   None \<Rightarrow> (\<lambda>args params. Some (defaultOnResolve args params))
                 | Some f \<Rightarrow> f),
              findPnpApi = locate,
              externals =
                parseExternals (case initial_external initialOptions of None \<Rightarrow> [] | Some es \<Rightarrow> es),
              isPlatformNode = (platform = ''node''),
              conditionSets =
                buildConditionSets
                  (case initial_conditions initialOptions of None \<Rightarrow> [] | Some cs \<Rightarrow> cs)
                  platform\<rparr>))"

subsection \<open>The resolve hook\<close>

text \<open>An empty string is falsy: \<^verbatim>\<open>resolveDir\<close> and \<^verbatim>\<open>importer\<close> are used when
  they are not empty.\<close>

definition effectiveImporter :: "Closure \<Rightarrow> OnResolveArgs \<Rightarrow> string" where
  "effectiveImporter env args =
     (if resolveDir args \<noteq> [] then resolveDir args @ ''/''
      else if importer args \<noteq> [] then importer args
      else baseDir env @ ''/'')"

definition resolveOptions :: "Closure \<Rightarrow> OnResolveArgs \<Rightarrow> ResolveOptions" where
  "resolveOptions env args =
     \<lparr>opts_conditions = selectConditions (conditionSets env) (kind args),
      opts_considerBuiltins = isPlatformNode env,
      opts_extensions = extensions env\<rparr>"

text \<open>\<^verbatim>\<open>pnpApi.resolveVirtual?.(path)\<close>: undefined when the provider has no such
  method.\<close>

definition callResolveVirtual :: "PnpApi \<Rightarrow> string \<Rightarrow> string option" where
  "callResolveVirtual pnpApi p =
     (case resolveVirtual pnpApi of None \<Rightarrow> None | Some rv \<Rightarrow> rv p)"

text \<open>
  The block \<^verbatim>\<open>if (path) { ... }\<close>: the calls it makes and what it pushes onto
  \<^verbatim>\<open>watchFiles\<close>. Null and the empty string are falsy.
\<close>

definition softLinkWatch :: "PnpApi \<Rightarrow> string option \<Rightarrow> Call list \<times> string option list" where
  "softLinkWatch pnpApi resolved =
     (case resolved of
        None \<Rightarrow> ([], [])
      | Some p \<Rightarrow>
          if p = [] then ([], [])
          else
            (case findPackageLocator pnpApi p of
               None \<Rightarrow> ([FindPackageLocator p], [])
             | Some locator \<Rightarrow>
                 (case getPackageInformation pnpApi locator of
                    None \<Rightarrow> ([FindPackageLocator p, GetPackageInformation locator], [])
                  | Some info \<Rightarrow>
                      if linkType info = SOFT
                      then
                        (FindPackageLocator p # GetPackageInformation locator
                           # (case resolveVirtual pnpApi of None \<Rightarrow> [] | Some rv \<Rightarrow> [ResolveVirtual p]),
                         [Some (case callResolveVirtual pnpApi p of None \<Rightarrow> p | Some v \<Rightarrow> v)])
                      else ([FindPackageLocator p, GetPackageInformation locator], []))))"

text \<open>
  The body of the hook up to its last line: it either returns \<^verbatim>\<open>{external: true}\<close>,
  returns undefined, lets the failure of the \<^verbatim>\<open>pnpapi\<close> lookup escape, or reaches the
  call of \<^verbatim>\<open>onResolve\<close> with the parameters it has assembled.
\<close>

datatype Step =
    StopExternal
  | StopUndefined
  | StopThrow Error
  | CallOnResolve OnResolveParams

definition resolveSteps :: "Closure \<Rightarrow> OnResolveArgs \<Rightarrow> Call list \<times> Step" where
  "resolveSteps env args =
     (if isExternal (path args) (externals env) then ([], StopExternal)
      else
        (case findPnpApi env (effectiveImporter env args) of
           None \<Rightarrow> ([FindPnpApi (effectiveImporter env args)], StopUndefined)
         | Some pnpApi \<Rightarrow>
             (let attempt =
                    resolveRequest pnpApi (path args) (Some (effectiveImporter env args))
                      (Some (resolveOptions env args));
                  resolved = (case attempt of Inl e \<Rightarrow> None | Inr p \<Rightarrow> p);
                  caught = (case attempt of Inl e \<Rightarrow> Some e | Inr p \<Rightarrow> None);
                  calls =
                    [FindPnpApi (effectiveImporter env args),
                     ResolveRequest (path args) (Some (effectiveImporter env args))
                       (Some (resolveOptions env args)),
                     ResolveRequest ''pnpapi'' None None]
              in case resolveRequest pnpApi ''pnpapi'' None None of
                   Inl e \<Rightarrow> (calls, StopThrow e)
                 | Inr manifest \<Rightarrow>
                     (calls @ fst (softLinkWatch pnpApi resolved),
                      CallOnResolve
                        \<lparr>resolvedPath = resolved,
                         watchFiles = manifest # snd (softLinkWatch pnpApi resolved),
                         error = caught\<rparr>))))"

datatype HookOutcome =
    Throws Error
  | ReturnsUndefined
  | Returns "OnResolveResult option"

text \<open>The whole callback registered with \<^verbatim>\<open>build.onResolve\<close>: the calls it makes
  to the provider and how it ends.\<close>

definition onResolveHook :: "Closure \<Rightarrow> OnResolveArgs \<Rightarrow> Call list \<times> HookOutcome" where
  "onResolveHook env args =
     (case resolveSteps env args of
        (calls, StopExternal) \<Rightarrow> (calls, Returns (Some (emptyResult\<lparr>res_external := Some True\<rparr>)))
      | (calls, StopUndefined) \<Rightarrow> (calls, ReturnsUndefined)
      | (calls, StopThrow e) \<Rightarrow> (calls, Throws e)
      | (calls, CallOnResolve params) \<Rightarrow> (calls, Returns (onResolve env args params)))"

subsection \<open>A sample workspace\<close>

text \<open>
  A provider for a workspace under \<^verbatim>\<open>/ws\<close>: package A is a soft-linked workspace at
  its real location, package B is soft-linked and reached through a virtual path,
  package C is hard-linked; \<^verbatim>\<open>fs\<close> is a builtin when builtins are considered.
\<close>

definition locatorA :: PackageLocator where
  "locatorA = \<lparr>name = Some ''pkgA'', reference = Some ''workspace:pkgA''\<rparr>"

definition locatorB :: PackageLocator where
  "locatorB = \<lparr>name = Some ''pkgB'', reference = Some ''virtual:1a2b#workspace:pkgB''\<rparr>"

definition locatorC :: PackageLocator where
  "locatorC = \<lparr>name = Some ''pkgC'', reference = Some ''npm:1.0.0''\<rparr>"

definition sampleResolveRequest ::
  "string \<Rightarrow> string option \<Rightarrow> ResolveOptions option \<Rightarrow> Error + string option"
where
  "sampleResolveRequest request issuer opts =
     (if request = ''pnpapi'' then Inr (Some ''/ws/.pnp.cjs'')
      else if request = ''fs''
              \<and> (case opts of None \<Rightarrow> True | Some v \<Rightarrow> opts_considerBuiltins v)
      then Inr None
      else if request = ''./util'' then Inr (Some ''/ws/pkgA/util.js'')
      else if request = ''pkgB'' then Inr (Some ''/ws/__virtual__/pkgB-1a2b/0/pkgB/index.js'')
      else if request = ''pkgC'' then Inr (Some ''/ws/.yarn/cache/pkgC.zip/node_modules/pkgC/index.js'')
      else Inl \<lparr>message = ''Your application tried to access a package that is not a dependency''\<rparr>)"

definition sampleApi :: PnpApi where
  "sampleApi =
     \<lparr>resolveRequest = sampleResolveRequest,
      findPackageLocator =
        (\<lambda>p. if startsWith p ''/ws/pkgA/'' then Some locatorA
              else if startsWith p ''/ws/__virtual__/pkgB-1a2b/'' then Some locatorB
              else if startsWith p ''/ws/.yarn/cache/pkgC.zip/'' then Some locatorC
              else None),
      getPackageInformation =
        (\<lambda>l. if l = locatorA \<or> l = locatorB then Some \<lparr>linkType = SOFT\<rparr>
              else if l = locatorC then Some \<lparr>linkType = HARD\<rparr>
              else None),
      resolveVirtual =
        Some (\<lambda>p. if p = ''/ws/__virtual__/pkgB-1a2b/0/pkgB/index.js''
                   then Some ''/ws/pkgB/index.js'' else None)\<rparr>"

definition sampleFindPnpApi :: "string \<Rightarrow> PnpApi option" where
  "sampleFindPnpApi ctx = (if startsWith ctx ''/ws/'' then Some sampleApi else None)"

definition sampleOptions :: PluginOptions where
  "sampleOptions = \<lparr>option_baseDir = None, option_extensions = None, option_onResolve = None\<rparr>"

definition sampleBuild :: BuildOptions where
  "sampleBuild =
     \<lparr>initial_external = Some [''left-*''], initial_platform = Some ''node'',
      initial_conditions = Some [''x'']\<rparr>"

definition sampleClosure :: Closure where
  "sampleClosure =
     \<lparr>baseDir = ''/ws'',
      extensions = defaultExtensions,
      onResolve = (\<lambda>args params. Some (defaultOnResolve args params)),
      findPnpApi = sampleFindPnpApi,
      externals = [Wildcard ''left-'' ''''],
      isPlatformNode = True,
      conditionSets =
        \<lparr>conditionsDefault = [''x'', ''default'', ''node''],
         conditionsImport = [''x'', ''default'', ''node'', ''import''],
         conditionsRequire = [''x'', ''default'', ''node'', ''require'']\<rparr>\<rparr>"

definition request :: "string \<Rightarrow> string \<Rightarrow> string \<Rightarrow> OnResolveArgs" where
  "request specifier from k =
     \<lparr>path = specifier, importer = from, resolveDir = [], kind = k\<rparr>"

section \<open>Auxiliary facts\<close>

lemmas sample_defs =
  sampleClosure_def sampleFindPnpApi_def sampleApi_def sampleResolveRequest_def request_def
  locatorA_def locatorB_def locatorC_def

lemmas hook_defs =
  resolveSteps_def softLinkWatch_def callResolveVirtual_def effectiveImporter_def
  resolveOptions_def selectConditions_def startsWith_def endsWith_def

subsection \<open>Strings and external patterns\<close>

lemma startsWith_iff: "startsWith s search \<longleftrightarrow> (\<exists>rest. s = search @ rest)"
proof
  assume "startsWith s search"
  then have "s = search @ drop (length search) s"
    unfolding startsWith_def by (metis append_take_drop_id)
  then show "\<exists>rest. s = search @ rest" ..
next
  assume "\<exists>rest. s = search @ rest"
  then show "startsWith s search"
    unfolding startsWith_def by auto
qed

lemma endsWith_iff: "endsWith s search \<longleftrightarrow> (\<exists>front. s = front @ search)"
proof
  assume h: "endsWith s search"
  then have "s = take (length s - length search) s @ search"
    unfolding endsWith_def by (metis append_take_drop_id)
  then show "\<exists>front. s = front @ search" ..
next
  assume "\<exists>front. s = front @ search"
  then show "endsWith s search"
    unfolding endsWith_def by auto
qed

lemma indexOf_absent: "c \<notin> set s \<Longrightarrow> indexOf s c = - 1"
  by (induction s) auto

lemma indexOf_first: "c \<notin> set pre \<Longrightarrow> indexOf (pre @ c # suf) c = int (length pre)"
  by (induction pre) (auto simp: Let_def)

lemma parseExternal_exact: "CHR ''*'' \<notin> set external \<Longrightarrow> parseExternal external = Exact external"
  by (simp add: parseExternal_def indexOf_absent)

lemma parseExternal_wildcard:
  assumes "CHR ''*'' \<notin> set pre"
  shows "parseExternal (pre @ ''*'' @ suf) = Wildcard pre suf"
proof -
  have idx: "indexOf (pre @ ''*'' @ suf) CHR ''*'' = int (length pre)"
    using indexOf_first [OF assms, of suf] by simp
  have a: "slice (pre @ ''*'' @ suf) 0 (int (length pre)) = pre"
    by (simp add: slice_def sliceIndex_def)
  have b: "sliceFrom (pre @ ''*'' @ suf) (int (length pre) + 1) = suf"
    by (simp add: sliceFrom_def slice_def sliceIndex_def nat_add_distrib)
  show ?thesis
    unfolding parseExternal_def idx Let_def using a b by simp
qed

text \<open>A list of patterns matches when one of its parts does.\<close>

lemma isExternal_append:
  "isExternal candidate (xs @ ys) \<longleftrightarrow> isExternal candidate xs \<or> isExternal candidate ys"
  by (induction candidate xs rule: isExternal.induct) auto

text \<open>Every raw external that contains a \<^verbatim>\<open>*\<close> splits at its first \<^verbatim>\<open>*\<close>.\<close>

lemma first_wildcard_split:
  assumes "CHR ''*'' \<in> set external"
  shows "\<exists>pre suf. external = pre @ ''*'' @ suf \<and> CHR ''*'' \<notin> set pre"
  using split_list_first [OF assms] by auto

lemma wildcard_pattern_matching:
  "isExternal candidate [Wildcard pre suf] \<longleftrightarrow>
     length pre + length suf \<le> length candidate
     \<and> (\<exists>rest. candidate = pre @ rest) \<and> (\<exists>front. candidate = front @ suf)"
  by (simp add: startsWith_iff endsWith_iff)

subsection \<open>Condition sets as sets\<close>

lemma set_setAdd: "set (setAdd s x) = insert x (set s)"
  by (auto simp: setAdd_def)

lemma set_foldl_setAdd: "set (foldl setAdd acc xs) = set acc \<union> set xs"
  by (induction xs arbitrary: acc) (auto simp: set_setAdd)

lemma set_newSet: "set (newSet xs) = set xs"
  by (simp add: newSet_def set_foldl_setAdd)

lemma distinct_setAdd: "distinct s \<Longrightarrow> distinct (setAdd s x)"
  by (simp add: setAdd_def)

lemma set_conditionsDefault:
  "set (conditionsDefault (buildConditionSets conditions platform)) =
     set conditions \<union> {''default''}
       \<union> (if platform = ''browser'' \<or> platform = ''node'' then {platform} else {})"
  by (auto simp: buildConditionSets_def Let_def set_setAdd set_newSet)

lemma set_conditionsImport:
  "set (conditionsImport (buildConditionSets conditions platform)) =
     set (conditionsDefault (buildConditionSets conditions platform)) \<union> {''import''}"
  by (auto simp: buildConditionSets_def Let_def set_setAdd set_newSet)

lemma set_conditionsRequire:
  "set (conditionsRequire (buildConditionSets conditions platform)) =
     set (conditionsDefault (buildConditionSets conditions platform)) \<union> {''require''}"
  by (auto simp: buildConditionSets_def Let_def set_setAdd set_newSet)

lemma insert_differs: "D \<noteq> D \<union> {a} \<longleftrightarrow> a \<notin> D"
  by blast

lemma inserts_differ: "a \<noteq> b \<Longrightarrow> D \<union> {a} \<noteq> D \<union> {b} \<longleftrightarrow> a \<notin> D \<or> b \<notin> D"
  by blast

lemma import_in_default:
  "''import'' \<in> set (conditionsDefault (buildConditionSets conditions platform))
     \<longleftrightarrow> ''import'' \<in> set conditions"
  unfolding set_conditionsDefault by simp

lemma require_in_default:
  "''require'' \<in> set (conditionsDefault (buildConditionSets conditions platform))
     \<longleftrightarrow> ''require'' \<in> set conditions"
  unfolding set_conditionsDefault by simp

text \<open>The sample closure is what \<^verbatim>\<open>setup\<close> builds for the sample build.\<close>

lemma sample_setup:
  "pnpPlugin ''/ws'' (Some sampleFindPnpApi) sampleOptions sampleBuild = Some sampleClosure"
  by (simp add: pnpPlugin_def sampleOptions_def sampleBuild_def sampleClosure_def
      buildConditionSets_def newSet_def setAdd_def parseExternals_def parseExternal_def
      slice_def sliceFrom_def sliceIndex_def Let_def)

subsection \<open>The path through the hook\<close>

text \<open>
  A request that is not external, whose importer the provider owns and for which the
  \<^verbatim>\<open>pnpapi\<close> lookup returns, reaches \<^verbatim>\<open>onResolve\<close> with these parameters, after
  these calls.
\<close>

lemma resolveSteps_reached:
  assumes "\<not> isExternal (path args) (externals env)"
    and "findPnpApi env (effectiveImporter env args) = Some pnpApi"
    and "resolveRequest pnpApi ''pnpapi'' None None = Inr manifest"
  shows "resolveSteps env args =
     ([FindPnpApi (effectiveImporter env args),
       ResolveRequest (path args) (Some (effectiveImporter env args)) (Some (resolveOptions env args)),
       ResolveRequest ''pnpapi'' None None]
        @ fst (softLinkWatch pnpApi
            (case resolveRequest pnpApi (path args) (Some (effectiveImporter env args))
                    (Some (resolveOptions env args)) of Inl e \<Rightarrow> None | Inr p \<Rightarrow> p)),
      CallOnResolve
        \<lparr>resolvedPath =
           (case resolveRequest pnpApi (path args) (Some (effectiveImporter env args))
                    (Some (resolveOptions env args)) of Inl e \<Rightarrow> None | Inr p \<Rightarrow> p),
         watchFiles = manifest # snd (softLinkWatch pnpApi
            (case resolveRequest pnpApi (path args) (Some (effectiveImporter env args))
                    (Some (resolveOptions env args)) of Inl e \<Rightarrow> None | Inr p \<Rightarrow> p)),
         error =
           (case resolveRequest pnpApi (path args) (Some (effectiveImporter env args))
                    (Some (resolveOptions env args)) of Inl e \<Rightarrow> Some e | Inr p \<Rightarrow> None)\<rparr>)"
  using assms by (simp add: resolveSteps_def Let_def)

text \<open>And \<^verbatim>\<open>onResolve\<close> is reached in no other way.\<close>

lemma resolveSteps_CallOnResolveD:
  assumes "snd (resolveSteps env args) = CallOnResolve params"
  shows "\<exists>pnpApi manifest.
           \<not> isExternal (path args) (externals env)
           \<and> findPnpApi env (effectiveImporter env args) = Some pnpApi
           \<and> resolveRequest pnpApi ''pnpapi'' None None = Inr manifest"
  using assms
  by (auto simp: resolveSteps_def Let_def split: if_splits option.splits sum.splits)

text \<open>A failure of the \<^verbatim>\<open>pnpapi\<close> lookup is the one that escapes the hook.\<close>

lemma manifest_failure_escapes:
  assumes "\<not> isExternal (path args) (externals env)"
    and "findPnpApi env (effectiveImporter env args) = Some pnpApi"
    and "resolveRequest pnpApi ''pnpapi'' None None = Inl e"
  shows "snd (onResolveHook env args) = Throws e"
  using assms by (simp add: onResolveHook_def resolveSteps_def Let_def)

section \<open>The result classifier\<close>

text \<open>
  Claim C1. When the parameters carry an error and no resolved path, the default
  \<^verbatim>\<open>onResolve\<close> returns an external result whose diagnostics depend on the request
  kind alone: for \<^verbatim>\<open>require-call\<close>, \<^verbatim>\<open>require-resolve\<close> and \<^verbatim>\<open>dynamic-import\<close> the
  error's message is the one warning and no errors field is set; for every other kind it
  is the one error and no warnings field is set. Either way the result is external and
  carries the watch files it was given.
\<close>

theorem classifier_failure_by_kind:
  "defaultOnResolve args \<lparr>resolvedPath = None, watchFiles = ws, error = Some e\<rparr> =
     (if kind args = ''require-call'' \<or> kind args = ''require-resolve''
         \<or> kind args = ''dynamic-import''
      then \<lparr>res_external = Some True, res_namespace = None, res_path = None,
            res_errors = None, res_warnings = Some [\<lparr>msg_text = message e\<rparr>],
            res_watchFiles = Some ws\<rparr>
      else \<lparr>res_external = Some True, res_namespace = None, res_path = None,
            res_errors = Some [\<lparr>msg_text = message e\<rparr>], res_warnings = None,
            res_watchFiles = Some ws\<rparr>)"
  by (simp add: defaultOnResolve_def emptyResult_def)

theorem classifier_failure_by_kind_witness:
  "defaultOnResolve (request ''nope'' ''/ws/src/index.js'' ''dynamic-import'')
       \<lparr>resolvedPath = None, watchFiles = [Some ''/ws/.pnp.cjs''],
        error = Some \<lparr>message = ''not found''\<rparr>\<rparr>
     = \<lparr>res_external = Some True, res_namespace = None, res_path = None,
        res_errors = None, res_warnings = Some [\<lparr>msg_text = ''not found''\<rparr>],
        res_watchFiles = Some [Some ''/ws/.pnp.cjs'']\<rparr>
   \<and> defaultOnResolve (request ''nope'' ''/ws/src/index.js'' ''import-statement'')
       \<lparr>resolvedPath = None, watchFiles = [Some ''/ws/.pnp.cjs''],
        error = Some \<lparr>message = ''not found''\<rparr>\<rparr>
     = \<lparr>res_external = Some True, res_namespace = None, res_path = None,
        res_errors = Some [\<lparr>msg_text = ''not found''\<rparr>], res_warnings = None,
        res_watchFiles = Some [Some ''/ws/.pnp.cjs'']\<rparr>"
  using classifier_failure_by_kind
      [of "request ''nope'' ''/ws/src/index.js'' ''dynamic-import''"
          "[Some ''/ws/.pnp.cjs'']" "\<lparr>message = ''not found''\<rparr>"]
    classifier_failure_by_kind
      [of "request ''nope'' ''/ws/src/index.js'' ''import-statement''"
          "[Some ''/ws/.pnp.cjs'']" "\<lparr>message = ''not found''\<rparr>"]
  by (simp add: request_def)

section \<open>The resolution engine\<close>

text \<open>
  Claim C2, as amended. In the parameters handed to \<^verbatim>\<open>onResolve\<close>, a resolved path
  and an error are never both present; and both are absent exactly when the provider's
  \<^verbatim>\<open>resolveRequest\<close> returned null without throwing. In every other case exactly one
  of the two is present.
\<close>

theorem resolved_path_and_error_exclusive:
  assumes "snd (resolveSteps env args) = CallOnResolve params"
  shows "\<not> (resolvedPath params \<noteq> None \<and> error params \<noteq> None)
         \<and> (resolvedPath params = None \<and> error params = None \<longleftrightarrow>
              (\<exists>pnpApi. findPnpApi env (effectiveImporter env args) = Some pnpApi
                 \<and> resolveRequest pnpApi (path args) (Some (effectiveImporter env args))
                      (Some (resolveOptions env args)) = Inr None))"
proof -
  obtain pnpApi manifest where
    a: "\<not> isExternal (path args) (externals env)"
    and b: "findPnpApi env (effectiveImporter env args) = Some pnpApi"
    and c: "resolveRequest pnpApi ''pnpapi'' None None = Inr manifest"
    using resolveSteps_CallOnResolveD [OF assms] by blast
  show ?thesis
    using assms b unfolding resolveSteps_reached [OF a b c]
    by (cases "resolveRequest pnpApi (path args) (Some (effectiveImporter env args))
                 (Some (resolveOptions env args))") auto
qed

theorem resolved_path_and_error_exclusive_witness:
  "snd (resolveSteps sampleClosure (request ''nope'' ''/ws/src/index.js'' ''import-statement''))
     = CallOnResolve
         \<lparr>resolvedPath = None, watchFiles = [Some ''/ws/.pnp.cjs''],
          error = Some \<lparr>message = ''Your application tried to access a package that is not a dependency''\<rparr>\<rparr>
   \<and> \<not> (\<exists>pnpApi. findPnpApi sampleClosure
               (effectiveImporter sampleClosure (request ''nope'' ''/ws/src/index.js'' ''import-statement''))
                 = Some pnpApi
             \<and> resolveRequest pnpApi (path (request ''nope'' ''/ws/src/index.js'' ''import-statement''))
                  (Some (effectiveImporter sampleClosure
                     (request ''nope'' ''/ws/src/index.js'' ''import-statement'')))
                  (Some (resolveOptions sampleClosure
                     (request ''nope'' ''/ws/src/index.js'' ''import-statement''))) = Inr None)"
proof -
  have h: "snd (resolveSteps sampleClosure (request ''nope'' ''/ws/src/index.js'' ''import-statement''))
     = CallOnResolve
         \<lparr>resolvedPath = None, watchFiles = [Some ''/ws/.pnp.cjs''],
          error = Some \<lparr>message = ''Your application tried to access a package that is not a dependency''\<rparr>\<rparr>"
    by (simp add: sample_defs hook_defs Let_def)
  show ?thesis
    using resolved_path_and_error_exclusive [OF h] h by simp
qed

text \<open>
  Claim C2 as stated fails: for the builtin \<^verbatim>\<open>fs\<close> on platform \<^verbatim>\<open>node\<close> the sample
  provider returns null, and \<^verbatim>\<open>onResolve\<close> is handed neither a path nor an error.
\<close>

theorem neither_path_nor_error_counterexample:
  "snd (resolveSteps sampleClosure (request ''fs'' ''/ws/src/index.js'' ''import-statement''))
     = CallOnResolve
         \<lparr>resolvedPath = None, watchFiles = [Some ''/ws/.pnp.cjs''], error = None\<rparr>"
  by (simp add: sample_defs hook_defs Let_def)

text \<open>
  Claim C3. A request whose specifier matches the external patterns ends the hook at once
  with the result \<^verbatim>\<open>{external: true}\<close>, which names no watch file, and no call to the
  provider has been made (neither \<^verbatim>\<open>findPnpApi\<close> nor \<^verbatim>\<open>resolveRequest\<close>), whatever
  the provider, the importer and the kind are.
\<close>

theorem external_short_circuit:
  assumes "isExternal (path args) (externals env)"
  shows "onResolveHook env args =
           ([], Returns (Some \<lparr>res_external = Some True, res_namespace = None, res_path = None,
                               res_errors = None, res_warnings = None, res_watchFiles = None\<rparr>))"
  using assms by (simp add: onResolveHook_def resolveSteps_def emptyResult_def)

theorem external_short_circuit_witness:
  "isExternal (path (request ''left-pad'' ''/ws/src/index.js'' ''import-statement''))
       (externals sampleClosure)
   \<and> onResolveHook sampleClosure (request ''left-pad'' ''/ws/src/index.js'' ''import-statement'')
       = ([], Returns (Some \<lparr>res_external = Some True, res_namespace = None, res_path = None,
                             res_errors = None, res_warnings = None, res_watchFiles = None\<rparr>))"
proof -
  have h: "isExternal (path (request ''left-pad'' ''/ws/src/index.js'' ''import-statement''))
       (externals sampleClosure)"
    by (simp add: sample_defs startsWith_def endsWith_def)
  show ?thesis
    using external_short_circuit [OF h] h by simp
qed

text \<open>
  Claim C4. When the provider does not own the effective importer of a request that is
  not external, the hook returns undefined, which is no result at all (external or not);
  its only call is the \<^verbatim>\<open>findPnpApi\<close> lookup: no \<^verbatim>\<open>resolveRequest\<close> and nothing
  of the watch-file computation.
\<close>

theorem unowned_importer_delegates:
  assumes "\<not> isExternal (path args) (externals env)"
    and "findPnpApi env (effectiveImporter env args) = None"
  shows "onResolveHook env args = ([FindPnpApi (effectiveImporter env args)], ReturnsUndefined)
         \<and> (\<forall>result. snd (onResolveHook env args) \<noteq> Returns result)"
  using assms by (simp add: onResolveHook_def resolveSteps_def)

theorem unowned_importer_delegates_witness:
  "\<not> isExternal (path (request ''pkgB'' ''/elsewhere/index.js'' ''import-statement''))
       (externals sampleClosure)
   \<and> findPnpApi sampleClosure
        (effectiveImporter sampleClosure (request ''pkgB'' ''/elsewhere/index.js'' ''import-statement''))
       = None
   \<and> onResolveHook sampleClosure (request ''pkgB'' ''/elsewhere/index.js'' ''import-statement'')
       = ([FindPnpApi ''/elsewhere/index.js''], ReturnsUndefined)"
proof -
  have a: "\<not> isExternal (path (request ''pkgB'' ''/elsewhere/index.js'' ''import-statement''))
       (externals sampleClosure)"
    by (simp add: sample_defs startsWith_def endsWith_def)
  have b: "findPnpApi sampleClosure
        (effectiveImporter sampleClosure (request ''pkgB'' ''/elsewhere/index.js'' ''import-statement''))
       = None"
    by (simp add: sample_defs hook_defs)
  have c: "effectiveImporter sampleClosure (request ''pkgB'' ''/elsewhere/index.js'' ''import-statement'')
       = ''/elsewhere/index.js''"
    by (simp add: sample_defs hook_defs)
  show ?thesis
    using unowned_importer_delegates [OF a b] a b c by simp
qed

text \<open>
  Claim C5, as amended. For a request that reaches \<^verbatim>\<open>onResolve\<close> (it is not external,
  the provider owns the importer and the \<^verbatim>\<open>pnpapi\<close> lookup returns), the watch files
  start with what the \<^verbatim>\<open>pnpapi\<close> lookup returned. When moreover a non-empty path was
  resolved, its package locator found and the package's link type is \<^verbatim>\<open>SOFT\<close>, the
  watch files are exactly that manifest entry followed by one more path: the result of
  \<^verbatim>\<open>resolveVirtual\<close> when the provider has that method and it returns a path, and the
  resolved path itself otherwise.
\<close>

theorem watch_files_manifest_and_soft_link:
  assumes "\<not> isExternal (path args) (externals env)"
    and "findPnpApi env (effectiveImporter env args) = Some pnpApi"
    and "resolveRequest pnpApi ''pnpapi'' None None = Inr manifest"
  shows "\<exists>params. snd (resolveSteps env args) = CallOnResolve params
           \<and> (\<exists>more. watchFiles params = manifest # more)
           \<and> (\<forall>p locator info.
                 resolveRequest pnpApi (path args) (Some (effectiveImporter env args))
                     (Some (resolveOptions env args)) = Inr (Some p)
                 \<and> p \<noteq> []
                 \<and> findPackageLocator pnpApi p = Some locator
                 \<and> getPackageInformation pnpApi locator = Some info
                 \<and> linkType info = SOFT
                 \<longrightarrow> watchFiles params =
                       [manifest, Some (case callResolveVirtual pnpApi p of None \<Rightarrow> p | Some v \<Rightarrow> v)])"
  unfolding resolveSteps_reached [OF assms]
  by (auto simp: softLinkWatch_def)

theorem watch_files_manifest_and_soft_link_witness:
  "\<not> isExternal (path (request ''pkgB'' ''/ws/src/index.js'' ''import-statement''))
       (externals sampleClosure)
   \<and> findPnpApi sampleClosure
        (effectiveImporter sampleClosure (request ''pkgB'' ''/ws/src/index.js'' ''import-statement''))
       = Some sampleApi
   \<and> resolveRequest sampleApi ''pnpapi'' None None = Inr (Some ''/ws/.pnp.cjs'')
   \<and> findPackageLocator sampleApi ''/ws/__virtual__/pkgB-1a2b/0/pkgB/index.js'' = Some locatorB
   \<and> getPackageInformation sampleApi locatorB = Some \<lparr>linkType = SOFT\<rparr>
   \<and> callResolveVirtual sampleApi ''/ws/__virtual__/pkgB-1a2b/0/pkgB/index.js''
       = Some ''/ws/pkgB/index.js''
   \<and> snd (resolveSteps sampleClosure (request ''pkgB'' ''/ws/src/index.js'' ''import-statement''))
       = CallOnResolve
           \<lparr>resolvedPath = Some ''/ws/__virtual__/pkgB-1a2b/0/pkgB/index.js'',
            watchFiles = [Some ''/ws/.pnp.cjs'', Some ''/ws/pkgB/index.js''],
            error = None\<rparr>"
proof -
  let ?args = "request ''pkgB'' ''/ws/src/index.js'' ''import-statement''"
  let ?v = "''/ws/__virtual__/pkgB-1a2b/0/pkgB/index.js''"
  have a: "\<not> isExternal (path ?args) (externals sampleClosure)"
    by (simp add: sample_defs startsWith_def endsWith_def)
  have b: "findPnpApi sampleClosure (effectiveImporter sampleClosure ?args) = Some sampleApi"
    by (simp add: sample_defs hook_defs)
  have c: "resolveRequest sampleApi ''pnpapi'' None None = Inr (Some ''/ws/.pnp.cjs'')"
    by (simp add: sample_defs)
  have d: "resolveRequest sampleApi (path ?args) (Some (effectiveImporter sampleClosure ?args))
        (Some (resolveOptions sampleClosure ?args)) = Inr (Some ?v)"
    by (simp add: sample_defs)
  have e: "findPackageLocator sampleApi ?v = Some locatorB"
    by (simp add: sample_defs startsWith_def)
  have f: "getPackageInformation sampleApi locatorB = Some \<lparr>linkType = SOFT\<rparr>"
    by (simp add: sample_defs)
  have g: "callResolveVirtual sampleApi ?v = Some ''/ws/pkgB/index.js''"
    by (simp add: sample_defs callResolveVirtual_def)
  obtain params where
    p: "snd (resolveSteps sampleClosure ?args) = CallOnResolve params"
    and w: "\<forall>p locator info.
        resolveRequest sampleApi (path ?args) (Some (effectiveImporter sampleClosure ?args))
          (Some (resolveOptions sampleClosure ?args)) = Inr (Some p)
        \<and> p \<noteq> []
        \<and> findPackageLocator sampleApi p = Some locator
        \<and> getPackageInformation sampleApi locator = Some info
        \<and> linkType info = SOFT
        \<longrightarrow> watchFiles params =
              [Some ''/ws/.pnp.cjs'', Some (case callResolveVirtual sampleApi p of None \<Rightarrow> p | Some v \<Rightarrow> v)]"
    using watch_files_manifest_and_soft_link [OF a b c] by blast
  have wf: "watchFiles params = [Some ''/ws/.pnp.cjs'', Some ''/ws/pkgB/index.js'']"
    using w [rule_format, of ?v locatorB "\<lparr>linkType = SOFT\<rparr>"] d e f g by simp
  have rp: "resolvedPath params = Some ?v \<and> error params = None"
    using p unfolding resolveSteps_reached [OF a b c] d by auto
  have "params = \<lparr>resolvedPath = Some ?v,
            watchFiles = [Some ''/ws/.pnp.cjs'', Some ''/ws/pkgB/index.js''], error = None\<rparr>"
    using wf rp by simp
  then show ?thesis
    using a b c e f g p by simp
qed

text \<open>
  Claim C5 as stated fails: package A of the sample workspace is soft-linked and its
  locator is found, but the resolved path is not a virtual one, so \<^verbatim>\<open>resolveVirtual\<close>
  returns null for it; the watch files are the manifest and the resolved path itself.
\<close>

theorem soft_link_without_virtual_path_counterexample:
  "snd (resolveSteps sampleClosure (request ''./util'' ''/ws/src/index.js'' ''import-statement''))
     = CallOnResolve
         \<lparr>resolvedPath = Some ''/ws/pkgA/util.js'',
          watchFiles = [Some ''/ws/.pnp.cjs'', Some ''/ws/pkgA/util.js''],
          error = None\<rparr>
   \<and> findPackageLocator sampleApi ''/ws/pkgA/util.js'' = Some locatorA
   \<and> getPackageInformation sampleApi locatorA = Some \<lparr>linkType = SOFT\<rparr>
   \<and> callResolveVirtual sampleApi ''/ws/pkgA/util.js'' = None"
  by (simp add: sample_defs hook_defs Let_def)

section \<open>The condition sets\<close>

text \<open>
  Claim C6. The closure that \<^verbatim>\<open>setup\<close> builds holds three condition sets: the default
  set is the user's conditions plus \<^verbatim>\<open>default\<close>, plus the platform's name when the
  platform (\<^verbatim>\<open>browser\<close> when none is configured) is \<^verbatim>\<open>browser\<close> or \<^verbatim>\<open>node\<close>; the
  import set is the default set plus \<^verbatim>\<open>import\<close>; the require set is the default set plus
  \<^verbatim>\<open>require\<close>. The hook takes the closure as it is and returns no new one, and the
  conditions it passes to the provider for a request are one of these three sets.
\<close>

theorem condition_sets_built_at_setup:
  assumes "pnpPlugin cwd moduleFindPnpApi options initialOptions = Some env"
  shows "set (conditionsDefault (conditionSets env)) =
           set (case initial_conditions initialOptions of None \<Rightarrow> [] | Some cs \<Rightarrow> cs)
             \<union> {''default''}
             \<union> (if (case initial_platform initialOptions of None \<Rightarrow> ''browser'' | Some p \<Rightarrow> p)
                      = ''browser''
                    \<or> (case initial_platform initialOptions of None \<Rightarrow> ''browser'' | Some p \<Rightarrow> p)
                      = ''node''
                 then {case initial_platform initialOptions of None \<Rightarrow> ''browser'' | Some p \<Rightarrow> p}
                 else {})
         \<and> set (conditionsImport (conditionSets env))
             = set (conditionsDefault (conditionSets env)) \<union> {''import''}
         \<and> set (conditionsRequire (conditionSets env))
             = set (conditionsDefault (conditionSets env)) \<union> {''require''}
         \<and> opts_conditions (resolveOptions env args)
             \<in> {conditionsDefault (conditionSets env), conditionsImport (conditionSets env),
                 conditionsRequire (conditionSets env)}"
proof -
  have cs: "conditionSets env =
      buildConditionSets (case initial_conditions initialOptions of None \<Rightarrow> [] | Some cs \<Rightarrow> cs)
        (case initial_platform initialOptions of None \<Rightarrow> ''browser'' | Some p \<Rightarrow> p)"
    using assms by (auto simp: pnpPlugin_def Let_def split: option.splits)
  have sel: "opts_conditions (resolveOptions env args)
             \<in> {conditionsDefault (conditionSets env), conditionsImport (conditionSets env),
                 conditionsRequire (conditionSets env)}"
    by (simp add: resolveOptions_def selectConditions_def)
  have d: "set (conditionsDefault (conditionSets env)) =
           set (case initial_conditions initialOptions of None \<Rightarrow> [] | Some cs \<Rightarrow> cs)
             \<union> {''default''}
             \<union> (if (case initial_platform initialOptions of None \<Rightarrow> ''browser'' | Some p \<Rightarrow> p)
                      = ''browser''
                    \<or> (case initial_platform initialOptions of None \<Rightarrow> ''browser'' | Some p \<Rightarrow> p)
                      = ''node''
                 then {case initial_platform initialOptions of None \<Rightarrow> ''browser'' | Some p \<Rightarrow> p}
                 else {})"
    unfolding cs by (rule set_conditionsDefault)
  have i: "set (conditionsImport (conditionSets env))
             = set (conditionsDefault (conditionSets env)) \<union> {''import''}"
    unfolding cs by (rule set_conditionsImport)
  have r: "set (conditionsRequire (conditionSets env))
             = set (conditionsDefault (conditionSets env)) \<union> {''require''}"
    unfolding cs by (rule set_conditionsRequire)
  from d i r sel show ?thesis by blast
qed

theorem condition_sets_built_at_setup_witness:
  "pnpPlugin ''/ws'' (Some sampleFindPnpApi) sampleOptions sampleBuild = Some sampleClosure
   \<and> set (conditionsDefault (conditionSets sampleClosure)) = {''x'', ''default'', ''node''}
   \<and> set (conditionsImport (conditionSets sampleClosure))
        = set (conditionsDefault (conditionSets sampleClosure)) \<union> {''import''}
   \<and> set (conditionsRequire (conditionSets sampleClosure))
        = set (conditionsDefault (conditionSets sampleClosure)) \<union> {''require''}
   \<and> opts_conditions (resolveOptions sampleClosure (request ''pkgB'' ''/ws/src/index.js'' ''require-call''))
       = conditionsRequire (conditionSets sampleClosure)"
proof -
  have h: "pnpPlugin ''/ws'' (Some sampleFindPnpApi) sampleOptions sampleBuild = Some sampleClosure"
    by (rule sample_setup)
  have s: "opts_conditions (resolveOptions sampleClosure (request ''pkgB'' ''/ws/src/index.js'' ''require-call''))
       = conditionsRequire (conditionSets sampleClosure)"
    by (simp add: resolveOptions_def selectConditions_def request_def)
  have d: "set (conditionsDefault (conditionSets sampleClosure)) = {''x'', ''default'', ''node''}"
    by (simp add: sampleClosure_def)
  show ?thesis
    using condition_sets_built_at_setup [OF h, of "request ''pkgB'' ''/ws/src/index.js'' ''require-call''"]
      h s d by blast
qed

text \<open>
  Claim C7, as amended. For all user conditions and every platform, the default and the
  import set differ iff \<^verbatim>\<open>import\<close> is not a user condition; the default and the require
  set differ iff \<^verbatim>\<open>require\<close> is not a user condition; the import and the require set
  differ iff the user conditions lack \<^verbatim>\<open>import\<close> or \<^verbatim>\<open>require\<close>. So the three sets
  are pairwise distinct exactly when the user conditions hold neither \<^verbatim>\<open>import\<close> nor
  \<^verbatim>\<open>require\<close>.
\<close>

theorem condition_sets_distinct_iff:
  "(set (conditionsDefault (buildConditionSets conditions platform))
      \<noteq> set (conditionsImport (buildConditionSets conditions platform))
    \<longleftrightarrow> ''import'' \<notin> set conditions)
   \<and> (set (conditionsDefault (buildConditionSets conditions platform))
      \<noteq> set (conditionsRequire (buildConditionSets conditions platform))
    \<longleftrightarrow> ''require'' \<notin> set conditions)
   \<and> (set (conditionsImport (buildConditionSets conditions platform))
      \<noteq> set (conditionsRequire (buildConditionSets conditions platform))
    \<longleftrightarrow> ''import'' \<notin> set conditions \<or> ''require'' \<notin> set conditions)"
proof -
  have ne: "''import'' \<noteq> ''require''" by simp
  show ?thesis
    unfolding set_conditionsImport set_conditionsRequire
    by (simp only: insert_differs inserts_differ [OF ne] import_in_default require_in_default
        simp_thms)
qed

theorem condition_sets_distinct_iff_witness:
  "''import'' \<notin> set [''x''] \<and> ''require'' \<notin> set [''x'']
   \<and> set (conditionsDefault (buildConditionSets [''x''] ''node''))
        \<noteq> set (conditionsImport (buildConditionSets [''x''] ''node''))
   \<and> set (conditionsDefault (buildConditionSets [''x''] ''node''))
        \<noteq> set (conditionsRequire (buildConditionSets [''x''] ''node''))
   \<and> set (conditionsImport (buildConditionSets [''x''] ''node''))
        \<noteq> set (conditionsRequire (buildConditionSets [''x''] ''node''))"
proof -
  have h: "''import'' \<notin> set [''x''] \<and> ''require'' \<notin> set [''x'']" by simp
  show ?thesis
    using condition_sets_distinct_iff [of "[''x'']" "''node''"] h by blast
qed

text \<open>
  Claim C7 as stated fails: with the user condition \<^verbatim>\<open>import\<close> on platform \<^verbatim>\<open>node\<close>,
  the default set and the import set are the same set.
\<close>

theorem condition_sets_not_distinct_counterexample:
  "set (conditionsDefault (buildConditionSets [''import''] ''node''))
     = set (conditionsImport (buildConditionSets [''import''] ''node''))"
  by (simp add: buildConditionSets_def newSet_def setAdd_def Let_def)

section \<open>The external matcher\<close>

text \<open>
  Claim C8. For an exact (wildcard-free) external, the candidate matches iff it equals the
  external, or the external is a bare package name (it does not start with \<^verbatim>\<open>/\<close>,
  \<^verbatim>\<open>./\<close> or \<^verbatim>\<open>../\<close> and is neither \<^verbatim>\<open>.\<close> nor \<^verbatim>\<open>..\<close>) and the candidate
  starts with the external followed by \<^verbatim>\<open>/\<close>. In particular, for a bare package the
  candidate \<^verbatim>\<open>pkg/sub/path\<close> matches and \<^verbatim>\<open>pkgother\<close> does not.
\<close>

theorem exact_external_matching:
  assumes "CHR ''*'' \<notin> set external"
  shows "(isExternal candidate (parseExternals [external]) \<longleftrightarrow>
            candidate = external
            \<or> ((\<nexists>r. external = ''/'' @ r) \<and> (\<nexists>r. external = ''./'' @ r)
                \<and> (\<nexists>r. external = ''../'' @ r) \<and> external \<noteq> ''.'' \<and> external \<noteq> ''..''
                \<and> (\<exists>rest. candidate = external @ ''/'' @ rest)))
         \<and> ((\<nexists>r. external = ''/'' @ r) \<and> (\<nexists>r. external = ''./'' @ r)
                \<and> (\<nexists>r. external = ''../'' @ r) \<and> external \<noteq> ''.'' \<and> external \<noteq> ''..''
              \<longrightarrow> isExternal (external @ ''/sub/path'') (parseExternals [external])
                \<and> \<not> isExternal (external @ ''other'') (parseExternals [external]))"
proof -
  have p: "parseExternals [external] = [Exact external]"
    by (simp add: parseExternals_def parseExternal_exact [OF assms])
  have sub: "startsWith (external @ ''/sub/path'') (external @ ''/'')"
    by (simp add: startsWith_def)
  have other: "\<not> startsWith (external @ ''other'') (external @ ''/'')"
    by (simp add: startsWith_def)
  have w: "startsWith candidate (external @ ''/'') \<longleftrightarrow> (\<exists>rest. candidate = external @ ''/'' @ rest)"
    by (simp add: startsWith_iff)
  show ?thesis
    unfolding p using sub other w by (simp add: startsWith_iff)
qed

theorem exact_external_matching_witness:
  "CHR ''*'' \<notin> set ''lodash''
   \<and> isExternal ''lodash'' (parseExternals [''lodash''])
   \<and> isExternal ''lodash/sub/path'' (parseExternals [''lodash''])
   \<and> \<not> isExternal ''lodashother'' (parseExternals [''lodash''])
   \<and> \<not> isExternal ''./lib/x'' (parseExternals [''./lib''])"
proof -
  have h: "CHR ''*'' \<notin> set ''lodash''" by simp
  have bare: "(\<nexists>r. ''lodash'' = ''/'' @ r) \<and> (\<nexists>r. ''lodash'' = ''./'' @ r)
      \<and> (\<nexists>r. ''lodash'' = ''../'' @ r) \<and> ''lodash'' \<noteq> ''.'' \<and> ''lodash'' \<noteq> ''..''"
    by simp
  have a: "isExternal ''lodash'' (parseExternals [''lodash''])"
    using exact_external_matching [OF h, of "''lodash''"] by simp
  have b: "isExternal ''lodash/sub/path'' (parseExternals [''lodash''])
      \<and> \<not> isExternal ''lodashother'' (parseExternals [''lodash''])"
    using exact_external_matching [OF h, of "''lodash''"] bare by simp
  have h2: "CHR ''*'' \<notin> set ''./lib''" by simp
  have c: "\<not> isExternal ''./lib/x'' (parseExternals [''./lib''])"
    using exact_external_matching [OF h2, of "''./lib/x''"] by simp
  show ?thesis using h a b c by simp
qed

text \<open>
  Claim C9. A raw external that contains a \<^verbatim>\<open>*\<close> is compiled to one wildcard pattern,
  its prefix and suffix being what stands before and after its first \<^verbatim>\<open>*\<close>; and a
  candidate matches iff it is at least as long as prefix and suffix together, starts with
  the prefix and ends with the suffix. For \<^verbatim>\<open>a*z\<close>, both \<^verbatim>\<open>abz\<close> and \<^verbatim>\<open>az\<close>
  match and \<^verbatim>\<open>a\<close> does not.
\<close>

theorem wildcard_external_matching:
  assumes "CHR ''*'' \<in> set external"
  shows "\<exists>pre suf.
           external = pre @ ''*'' @ suf \<and> CHR ''*'' \<notin> set pre
           \<and> parseExternals [external] = [Wildcard pre suf]
           \<and> (\<forall>candidate.
                 isExternal candidate (parseExternals [external]) \<longleftrightarrow>
                   length pre + length suf \<le> length candidate
                   \<and> (\<exists>rest. candidate = pre @ rest) \<and> (\<exists>front. candidate = front @ suf))"
proof -
  obtain pre suf where e: "external = pre @ ''*'' @ suf" and n: "CHR ''*'' \<notin> set pre"
    using first_wildcard_split [OF assms] by blast
  have p: "parseExternals [external] = [Wildcard pre suf]"
    unfolding e using parseExternal_wildcard [OF n, of suf] by (simp add: parseExternals_def)
  have m: "\<forall>candidate.
             isExternal candidate (parseExternals [external]) \<longleftrightarrow>
               length pre + length suf \<le> length candidate
               \<and> (\<exists>rest. candidate = pre @ rest) \<and> (\<exists>front. candidate = front @ suf)"
    unfolding p by (rule allI) (rule wildcard_pattern_matching)
  from e n p m show ?thesis by blast
qed

theorem wildcard_external_matching_witness:
  "CHR ''*'' \<in> set ''a*z''
   \<and> parseExternals [''a*z''] = [Wildcard ''a'' ''z'']
   \<and> isExternal ''abz'' (parseExternals [''a*z''])
   \<and> isExternal ''az'' (parseExternals [''a*z''])
   \<and> \<not> isExternal ''a'' (parseExternals [''a*z''])"
proof -
  have h: "CHR ''*'' \<in> set ''a*z''" by simp
  obtain pre suf where
    p: "parseExternals [''a*z''] = [Wildcard pre suf]"
    and m: "\<forall>candidate.
             isExternal candidate (parseExternals [''a*z'']) \<longleftrightarrow>
               length pre + length suf \<le> length candidate
               \<and> (\<exists>rest. candidate = pre @ rest) \<and> (\<exists>front. candidate = front @ suf)"
    using wildcard_external_matching [OF h] by blast
  have q: "parseExternals [''a*z''] = [Wildcard ''a'' ''z'']"
    by (simp add: parseExternals_def parseExternal_def slice_def sliceFrom_def sliceIndex_def)
  have ps: "pre = ''a'' \<and> suf = ''z''"
    using p q by simp
  have abz: "isExternal ''abz'' (parseExternals [''a*z''])"
    using m [rule_format, of "''abz''"] ps by simp
  have az: "isExternal ''az'' (parseExternals [''a*z''])"
    using m [rule_format, of "''az''"] ps by simp
  have a: "\<not> isExternal ''a'' (parseExternals [''a*z''])"
    using m [rule_format, of "''a''"] ps by simp
  show ?thesis using h q abz az a by blast
qed

section \<open>Null resolutions\<close>

text \<open>
  Claim C10. When the provider's \<^verbatim>\<open>resolveRequest\<close> returns null without throwing
  (a Node builtin with \<^verbatim>\<open>considerBuiltins\<close>, say), the hook with the default
  \<^verbatim>\<open>onResolve\<close> returns an external result with the watch files, no path, and a
  diagnostics list that is present and empty: \<^verbatim>\<open>warnings\<close> for \<^verbatim>\<open>require-call\<close>,
  \<^verbatim>\<open>require-resolve\<close> and \<^verbatim>\<open>dynamic-import\<close>, \<^verbatim>\<open>errors\<close> for every other kind.
\<close>

theorem null_resolution_is_silently_external:
  assumes "\<not> isExternal (path args) (externals env)"
    and "findPnpApi env (effectiveImporter env args) = Some pnpApi"
    and "resolveRequest pnpApi (path args) (Some (effectiveImporter env args))
           (Some (resolveOptions env args)) = Inr None"
    and "resolveRequest pnpApi ''pnpapi'' None None = Inr manifest"
    and "onResolve env = (\<lambda>a params. Some (defaultOnResolve a params))"
  shows "snd (onResolveHook env args) =
     Returns (Some
       (if kind args = ''require-call'' \<or> kind args = ''require-resolve''
           \<or> kind args = ''dynamic-import''
        then \<lparr>res_external = Some True, res_namespace = None, res_path = None,
              res_errors = None, res_warnings = Some [], res_watchFiles = Some [manifest]\<rparr>
        else \<lparr>res_external = Some True, res_namespace = None, res_path = None,
              res_errors = Some [], res_warnings = None, res_watchFiles = Some [manifest]\<rparr>))"
  unfolding onResolveHook_def resolveSteps_reached [OF assms(1,2,4)]
  using assms(3,5) by (simp add: softLinkWatch_def defaultOnResolve_def emptyResult_def)

theorem null_resolution_is_silently_external_witness:
  "\<not> isExternal (path (request ''fs'' ''/ws/src/index.js'' ''require-call''))
       (externals sampleClosure)
   \<and> findPnpApi sampleClosure
        (effectiveImporter sampleClosure (request ''fs'' ''/ws/src/index.js'' ''require-call''))
       = Some sampleApi
   \<and> resolveRequest sampleApi (path (request ''fs'' ''/ws/src/index.js'' ''require-call''))
        (Some (effectiveImporter sampleClosure (request ''fs'' ''/ws/src/index.js'' ''require-call'')))
        (Some (resolveOptions sampleClosure (request ''fs'' ''/ws/src/index.js'' ''require-call'')))
       = Inr None
   \<and> resolveRequest sampleApi ''pnpapi'' None None = Inr (Some ''/ws/.pnp.cjs'')
   \<and> snd (onResolveHook sampleClosure (request ''fs'' ''/ws/src/index.js'' ''require-call''))
       = Returns (Some
           \<lparr>res_external = Some True, res_namespace = None, res_path = None,
            res_errors = None, res_warnings = Some [],
            res_watchFiles = Some [Some ''/ws/.pnp.cjs'']\<rparr>)"
proof -
  let ?args = "request ''fs'' ''/ws/src/index.js'' ''require-call''"
  have a: "\<not> isExternal (path ?args) (externals sampleClosure)"
    by (simp add: sample_defs startsWith_def endsWith_def)
  have b: "findPnpApi sampleClosure (effectiveImporter sampleClosure ?args) = Some sampleApi"
    by (simp add: sample_defs hook_defs)
  have c: "resolveRequest sampleApi (path ?args) (Some (effectiveImporter sampleClosure ?args))
        (Some (resolveOptions sampleClosure ?args)) = Inr None"
    by (simp add: sample_defs hook_defs)
  have d: "resolveRequest sampleApi ''pnpapi'' None None = Inr (Some ''/ws/.pnp.cjs'')"
    by (simp add: sample_defs)
  have e: "onResolve sampleClosure = (\<lambda>a params. Some (defaultOnResolve a params))"
    by (simp add: sampleClosure_def)
  have k: "kind ?args = ''require-call''"
    by (simp add: request_def)
  have r: "snd (onResolveHook sampleClosure ?args)
       = Returns (Some
           \<lparr>res_external = Some True, res_namespace = None, res_path = None,
            res_errors = None, res_warnings = Some [],
            res_watchFiles = Some [Some ''/ws/.pnp.cjs'']\<rparr>)"
    using null_resolution_is_silently_external [OF a b c d e] unfolding k by simp
  show ?thesis
    using a b c d r by blast
qed

end
